theory Spec2Isabelle
  imports Complex_Main "HOL-Library.Char_ord" "HOL-Library.List_Lexorder"
begin

section \<open>Data model: the property graph held by the database\<close>

text \<open>
  The programs are Python drivers around Cypher queries. The embedding keeps the store
  explicit: a graph is the list of Transaction nodes in creation order together with the
  list of relationships, and every query is a function from graph to graph (or to the rows
  it returns).

  A node is identified by its position in the node list (the database's internal node
  identity); the property \<open>Transaction_ID\<close> is ordinary data and two nodes may carry the
  same one, since nodes are made with CREATE. Only the properties that the queries read
  or write are kept. Amounts are exact reals, so that \<open>0.1 * x\<close> is a tenth of \<open>x\<close>.
  The property \<open>timestamp\<close> is stored by the source as an ISO-8601 text of fixed width
  (\<open>YYYY-MM-DDTHH:MM:SS\<close>); its text order is its chronological order and
  \<open>duration.inSeconds(datetime(a), datetime(b)).seconds\<close> is the signed number of seconds
  from \<open>a\<close> to \<open>b\<close>, so an instant is modelled by its number of seconds on a fixed time line.
  The risk properties are absent (null) until the scoring query sets them.
\<close>

record transaction =
  Transaction_ID :: string
  Transaction_Type :: string
  Transaction_Amount :: real
  timestamp :: int
  severity :: "int option"
  occurrence :: "int option"
  detection :: "int option"
  RPN :: "int option"
  failure_mode :: "string option"

datatype rel_label = NEXT | SIMILAR

record relationship =
  rel_src :: nat
  rel_label :: rel_label
  rel_dst :: nat
  time_diff :: "int option"

record graph =
  nodes :: "transaction list"
  rels :: "relationship list"

definition empty_graph :: graph where
  "empty_graph = \<lparr>nodes = [], rels = []\<rparr>"

text \<open>The exceptions that the programs can raise.\<close>

datatype py_error = TypeError | ValueError

text \<open>\<open>MATCH (t:Transaction)\<close>: every node, in creation order.\<close>

definition match_transactions :: "graph \<Rightarrow> nat list" where
  "match_transactions g = [0..<length (nodes g)]"

definition property :: "graph \<Rightarrow> (transaction \<Rightarrow> 'a) \<Rightarrow> nat \<Rightarrow> 'a" where
  "property g f t = f (nodes g ! t)"

section \<open>graph\_construction.py\<close>

subsection \<open>load\_data\<close>

text \<open>
  \<open>load_data\<close> first reads and converts the whole file (\<open>read_csv\<close>, the column drops,
  \<open>to_datetime\<close> over the date and the time column) and only then numbers the rows and
  cuts the table to its first 1000 rows. Reading and converting are done by pandas on
  whole columns: a cell that cannot be converted raises wherever it stands in the file,
  and the type chosen for a column, hence the value held for a cell, depends on all cells
  of the column. This part is the parameter \<open>parse\<close> of the model: applied to the file
  it gives either the exception raised or the converted table, one \<open>csv_row\<close> for each
  line, with the amount as the number the column holds and date and time resolved to one
  instant.
\<close>

record csv_row =
  row_Transaction_Type :: string
  row_Transaction_Amount :: real
  row_timestamp :: int

fun str_nat :: "nat \<Rightarrow> string" where
  "str_nat n =
     (if n < 10 then [''0123456789'' ! n]
      else str_nat (n div 10) @ [''0123456789'' ! (n mod 10)])"

declare str_nat.simps [simp del]

definition clean_row :: "nat \<times> csv_row \<Rightarrow> transaction" where
  "clean_row ir =
     \<lparr>Transaction_ID = str_nat (fst ir),
      Transaction_Type = row_Transaction_Type (snd ir),
      Transaction_Amount = row_Transaction_Amount (snd ir),
      timestamp = row_timestamp (snd ir),
      severity = None, occurrence = None, detection = None, RPN = None,
      failure_mode = None\<rparr>"

text \<open>\<open>df['Transaction_ID'] = df.index.astype(str)\<close> and \<open>return df[:1000]\<close>.\<close>

definition load_data ::
  "('f \<Rightarrow> py_error + csv_row list) \<Rightarrow> 'f \<Rightarrow> py_error + transaction list" where
  "load_data parse csv_path =
     (case parse csv_path of
        Inl e \<Rightarrow> Inl e
      | Inr df \<Rightarrow> Inr (take 1000 (map clean_row (enumerate 0 df))))"

subsection \<open>create\_transaction\_nodes\<close>

text \<open>\<open>UNWIND $data as row CREATE (t:Transaction {...})\<close>: one new node per row.\<close>

definition create_transaction_nodes :: "graph \<Rightarrow> transaction list \<Rightarrow> graph" where
  "create_transaction_nodes g df = g\<lparr>nodes := nodes g @ df\<rparr>"

subsection \<open>create\_next\_relationships\<close>

text \<open>
  \<open>WITH t ORDER BY t.timestamp WITH collect(t) as txs\<close>. The query names no second sort
  key; nodes with equal timestamps stay in the order in which MATCH produced them.
\<close>

definition order_by_timestamp :: "graph \<Rightarrow> nat list" where
  "order_by_timestamp g = sort_key (property g timestamp) (match_transactions g)"

text \<open>\<open>range(a, b)\<close> of Cypher holds both ends and is empty when \<open>b < a\<close>.\<close>

definition cypher_range :: "int \<Rightarrow> int \<Rightarrow> int list" where
  "cypher_range a b = [a..b]"

definition duration_inSeconds :: "int \<Rightarrow> int \<Rightarrow> int" where
  "duration_inSeconds a b = b - a"

definition next_rel :: "graph \<Rightarrow> nat \<Rightarrow> nat \<Rightarrow> relationship" where
  "next_rel g t1 t2 =
     \<lparr>rel_src = t1, rel_label = NEXT, rel_dst = t2,
      time_diff = Some (duration_inSeconds (property g timestamp t1) (property g timestamp t2))\<rparr>"

definition next_created :: "graph \<Rightarrow> relationship list" where
  "next_created g =
     (let txs = order_by_timestamp g
      in map (\<lambda>idx. next_rel g (txs ! nat idx) (txs ! nat (idx + 1)))
           (cypher_range 0 (int (length txs) - 2)))"

definition create_next_relationships :: "graph \<Rightarrow> graph" where
  "create_next_relationships g = g\<lparr>rels := rels g @ next_created g\<rparr>"

subsection \<open>create\_similar\_relationships\<close>

definition similar_where :: "graph \<Rightarrow> nat \<Rightarrow> nat \<Rightarrow> bool" where
  "similar_where g t1 t2 \<longleftrightarrow>
     property g Transaction_ID t1 \<noteq> property g Transaction_ID t2
     \<and> property g Transaction_Type t1 = property g Transaction_Type t2
     \<and> \<bar>property g Transaction_Amount t1 - property g Transaction_Amount t2\<bar>
         < (1 / 10) * property g Transaction_Amount t1
     \<and> \<bar>duration_inSeconds (property g timestamp t1) (property g timestamp t2)\<bar> < 3600"

definition similar_rel :: "nat \<times> nat \<Rightarrow> relationship" where
  "similar_rel p = \<lparr>rel_src = fst p, rel_label = SIMILAR, rel_dst = snd p, time_diff = None\<rparr>"

text \<open>\<open>MATCH (t1:Transaction), (t2:Transaction) WHERE ...\<close>: the whole Cartesian product.\<close>

definition similar_matches :: "graph \<Rightarrow> (nat \<times> nat) list" where
  "similar_matches g =
     filter (\<lambda>p. similar_where g (fst p) (snd p))
       (List.product (match_transactions g) (match_transactions g))"

definition similar_created :: "graph \<Rightarrow> relationship list" where
  "similar_created g = map similar_rel (similar_matches g)"

definition create_similar_relationships :: "graph \<Rightarrow> graph" where
  "create_similar_relationships g = g\<lparr>rels := rels g @ similar_created g\<rparr>"

subsection \<open>main\<close>

text \<open>The two edge-construction steps, in the order in which \<open>main\<close> calls them.\<close>

definition build_edges :: "graph \<Rightarrow> graph" where
  "build_edges g = create_similar_relationships (create_next_relationships g)"

definition main_graph_construction ::
  "('f \<Rightarrow> py_error + csv_row list) \<Rightarrow> graph \<Rightarrow> 'f \<Rightarrow> py_error + graph" where
  "main_graph_construction parse db csv_path =
     (case load_data parse csv_path of
        Inl e \<Rightarrow> Inl e
      | Inr df \<Rightarrow> Inr (build_edges (create_transaction_nodes db df)))"

text \<open>How many relationships with a given label lead from one given node to another.\<close>

definition edge_count :: "graph \<Rightarrow> nat \<Rightarrow> rel_label \<Rightarrow> nat \<Rightarrow> nat" where
  "edge_count g a l b =
     length (filter (\<lambda>r. rel_src r = a \<and> rel_label r = l \<and> rel_dst r = b) (rels g))"

section \<open>fmea\_implementation.py\<close>

subsection \<open>Aggregating functions of the query language\<close>

text \<open>
  \<open>avg\<close> is null over no rows; \<open>stDev\<close> is the sample standard deviation (divisor
  \<open>n - 1\<close>) and is 0 over fewer than two rows. An aggregation without grouping key
  returns exactly one row, also over no nodes.
\<close>

definition cypher_avg :: "real list \<Rightarrow> real option" where
  "cypher_avg xs = (if xs = [] then None else Some (sum_list xs / real (length xs)))"

definition cypher_stDev :: "real list \<Rightarrow> real" where
  "cypher_stDev xs =
     (if length xs < 2 then 0
      else sqrt (sum_list (map (\<lambda>x. (x - sum_list xs / real (length xs))\<^sup>2) xs)
                 / real (length xs - 1)))"

definition stats_query :: "graph \<Rightarrow> (real option \<times> real) list" where
  "stats_query g =
     [(cypher_avg (map (property g Transaction_Amount) (match_transactions g)),
       cypher_stDev (map (property g Transaction_Amount) (match_transactions g)))]"

text \<open>
  \<open>result.single()\<close> of the driver gives the first row, or \<open>None\<close> when there is none;
  subscripting \<open>None\<close> raises \<open>TypeError\<close>.
\<close>

definition single :: "'a list \<Rightarrow> 'a option" where
  "single rows = (case rows of [] \<Rightarrow> None | r # _ \<Rightarrow> Some r)"

subsection \<open>The scoring query\<close>

text \<open>\<open>OPTIONAL MATCH (t)-[r:SIMILAR]->() ... count(r)\<close>, grouped by \<open>t\<close>.\<close>

definition sim_count :: "graph \<Rightarrow> nat \<Rightarrow> int" where
  "sim_count g t =
     int (length (filter (\<lambda>r. rel_src r = t \<and> rel_label r = SIMILAR) (rels g)))"

text \<open>
  A comparison with null is null, which is not true, so with a null average both WHEN
  branches are skipped.
\<close>

definition severity_case :: "real \<Rightarrow> real option \<Rightarrow> real \<Rightarrow> int" where
  "severity_case amount avg_amt std_amt =
     (case avg_amt of
        None \<Rightarrow> 3
      | Some a \<Rightarrow>
          if amount > a + 2 * std_amt then 10
          else if amount > a + std_amt then 7
          else 3)"

definition occurrence_case :: "int \<Rightarrow> int" where
  "occurrence_case sc = (if sc + 1 > 10 then 10 else sc + 1)"

definition failure_mode_case :: "int \<Rightarrow> int \<Rightarrow> string" where
  "failure_mode_case rpn threshold = (if rpn \<ge> threshold then ''High Risk'' else ''Normal'')"

definition score_node :: "graph \<Rightarrow> real option \<Rightarrow> real \<Rightarrow> int \<Rightarrow> nat \<Rightarrow> transaction" where
  "score_node g avg_amt std_amt threshold t =
     (let sc = sim_count g t;
          sev = severity_case (property g Transaction_Amount t) avg_amt std_amt;
          rpn = sev * occurrence_case sc * 5
      in (nodes g ! t)
           \<lparr>severity := Some sev,
            occurrence := Some (occurrence_case sc),
            detection := Some 5,
            RPN := Some rpn,
            failure_mode := Some (failure_mode_case rpn threshold)\<rparr>)"

definition fmea_query :: "graph \<Rightarrow> real option \<Rightarrow> real \<Rightarrow> int \<Rightarrow> graph" where
  "fmea_query g avg_amt std_amt threshold =
     g\<lparr>nodes := map (score_node g avg_amt std_amt threshold) (match_transactions g)\<rparr>"

definition run_fmea :: "graph \<Rightarrow> int \<Rightarrow> py_error + graph" where
  "run_fmea g threshold =
     (case single (stats_query g) of
        None \<Rightarrow> Inl TypeError
      | Some record \<Rightarrow> Inr (fmea_query g (fst record) (snd record) threshold))"

text \<open>\<open>main\<close> scores with the default threshold: \<open>run_fmea(driver, threshold=30)\<close>.\<close>

definition main_fmea :: "graph \<Rightarrow> py_error + graph" where
  "main_fmea g = run_fmea g 30"

section \<open>summary\_report.py\<close>

text \<open>\<open>min\<close>, \<open>max\<close> and \<open>avg\<close> skip nulls and are null over no value.\<close>

definition cypher_min :: "int list \<Rightarrow> int option" where
  "cypher_min xs = (case xs of [] \<Rightarrow> None | x # r \<Rightarrow> Some (fold min r x))"

definition cypher_max :: "int list \<Rightarrow> int option" where
  "cypher_max xs = (case xs of [] \<Rightarrow> None | x # r \<Rightarrow> Some (fold max r x))"

record summary =
  total :: int
  highRisk :: int
  avgRPN :: "real option"
  minRPN :: "int option"
  maxRPN :: "int option"

definition rpn_values :: "graph \<Rightarrow> int list" where
  "rpn_values g = List.map_filter RPN (nodes g)"

definition summary_query :: "graph \<Rightarrow> summary list" where
  "summary_query g =
     [\<lparr>total = int (length (match_transactions g)),
       highRisk = sum_list (map (\<lambda>t. if property g failure_mode t = Some ''High Risk'' then 1 else 0)
                              (match_transactions g)),
       avgRPN = cypher_avg (map real_of_int (rpn_values g)),
       minRPN = cypher_min (rpn_values g),
       maxRPN = cypher_max (rpn_values g)\<rparr>]"

definition get_summary_report :: "graph \<Rightarrow> summary option" where
  "get_summary_report g = single (summary_query g)"

section \<open>Sample databases\<close>

text \<open>A freshly created node: the risk properties are not set yet.\<close>

definition tx :: "string \<Rightarrow> string \<Rightarrow> real \<Rightarrow> int \<Rightarrow> transaction" where
  "tx i ty a ts =
     \<lparr>Transaction_ID = i, Transaction_Type = ty, Transaction_Amount = a, timestamp = ts,
      severity = None, occurrence = None, detection = None, RPN = None, failure_mode = None\<rparr>"

text \<open>Nine transactions whose amounts have mean 100 and sample standard deviation 10.\<close>

definition graph_tiers :: graph where
  "graph_tiers =
     \<lparr>nodes = [tx ''0'' ''Transfer'' 120 0, tx ''1'' ''Transfer'' 80 60,
               tx ''2'' ''Debit'' 100 120, tx ''3'' ''Debit'' 100 180,
               tx ''4'' ''Debit'' 100 240, tx ''5'' ''Debit'' 100 300,
               tx ''6'' ''Debit'' 100 360, tx ''7'' ''Debit'' 100 420,
               tx ''8'' ''Debit'' 100 480],
      rels = []\<rparr>"

definition row :: "string \<Rightarrow> real \<Rightarrow> int \<Rightarrow> csv_row" where
  "row ty a ts = \<lparr>row_Transaction_Type = ty, row_Transaction_Amount = a, row_timestamp = ts\<rparr>"

text \<open>
  A reader for sample files. Each line is given by the row it converts to, or by \<open>None\<close>
  when it cannot be converted; one such line anywhere in the file makes the whole load
  raise \<open>ValueError\<close>, as \<open>to_datetime\<close> does.
\<close>

fun parse_lines :: "csv_row option list \<Rightarrow> py_error + csv_row list" where
  "parse_lines [] = Inr []"
| "parse_lines (None # ls) = Inl ValueError"
| "parse_lines (Some r # ls) =
     (case parse_lines ls of Inl e \<Rightarrow> Inl e | Inr rs \<Rightarrow> Inr (r # rs))"

text \<open>Two equal debits ten minutes apart, loaded into an empty database.\<close>

definition graph_pair :: graph where
  "graph_pair =
     (case main_graph_construction parse_lines empty_graph
             [Some (row ''Debit'' 100 0), Some (row ''Debit'' 100 600)] of
        Inr g \<Rightarrow> g
      | Inl e \<Rightarrow> empty_graph)"

text \<open>Thirteen equal debits at the same instant: each is similar to the twelve others.\<close>

definition graph_crowd :: graph where
  "graph_crowd =
     (case main_graph_construction parse_lines empty_graph
             (replicate 13 (Some (row ''Debit'' 100 0))) of
        Inr g \<Rightarrow> g
      | Inl e \<Rightarrow> empty_graph)"

text \<open>The nine transactions of \<open>graph_tiers\<close> after the scoring run of \<open>main\<close>.\<close>

definition graph_tiers_scored :: graph where
  "graph_tiers_scored = (case main_fmea graph_tiers of Inr g' \<Rightarrow> g' | Inl e \<Rightarrow> graph_tiers)"

text \<open>Two debits of 100 and 111, ten minutes apart, as nodes without relationships.\<close>

definition graph_asym :: graph where
  "graph_asym =
     (case load_data parse_lines [Some (row ''Debit'' 100 0), Some (row ''Debit'' 111 600)] of
        Inr df \<Rightarrow> create_transaction_nodes empty_graph df
      | Inl e \<Rightarrow> empty_graph)"

text \<open>Three rows that are not in chronological order, as nodes without relationships.\<close>

definition graph_shuffled :: graph where
  "graph_shuffled =
     (case load_data parse_lines
             [Some (row ''Debit'' 100 600), Some (row ''Credit'' 50 0), Some (row ''Debit'' 20 300)] of
        Inr df \<Rightarrow> create_transaction_nodes empty_graph df
      | Inl e \<Rightarrow> empty_graph)"

text \<open>
  Two nodes with the same timestamp; the one created first carries the identifier "1",
  the other the identifier "0".
\<close>

definition graph_ties :: graph where
  "graph_ties =
     create_transaction_nodes empty_graph [tx ''1'' ''Debit'' 100 0, tx ''0'' ''Debit'' 100 0]"

section \<open>Auxiliary facts\<close>

lemma enumerate_take: "enumerate n (take m xs) = take m (enumerate n xs)"
  by (simp add: enumerate_eq_zip take_zip min_def)

lemma map_property: "map (property g f) (match_transactions g) = map f (nodes g)"
  unfolding match_transactions_def property_def
  by (rule nth_equalityI) simp_all

lemma run_fmea_Inr:
  "run_fmea g threshold =
     Inr (fmea_query g (cypher_avg (map Transaction_Amount (nodes g)))
            (cypher_stDev (map Transaction_Amount (nodes g))) threshold)"
  by (simp add: run_fmea_def single_def stats_query_def map_property)

lemma nodes_fmea_query:
  "t < length (nodes g) \<Longrightarrow>
     nodes (fmea_query g a s threshold) ! t = score_node g a s threshold t"
  by (simp add: fmea_query_def match_transactions_def)

lemma length_fmea_query: "length (nodes (fmea_query g a s threshold)) = length (nodes g)"
  by (simp add: fmea_query_def match_transactions_def)

lemma rels_fmea_query: "rels (fmea_query g a s threshold) = rels g"
  by (simp add: fmea_query_def)

lemma severity_case_range: "severity_case x a s \<in> {3, 7, 10}"
  by (cases a) (simp_all add: severity_case_def)

lemma occurrence_case_min: "occurrence_case c = min (c + 1) 10"
  by (simp add: occurrence_case_def min_def)

lemma sim_count_nonneg: "0 \<le> sim_count g t"
  by (simp add: sim_count_def)

lemma occurrence_case_bounds:
  "0 \<le> c \<Longrightarrow> 1 \<le> occurrence_case c \<and> occurrence_case c \<le> 10"
  by (simp add: occurrence_case_def)

section \<open>Record normalisation\<close>

lemma parse_lines_Some: "parse_lines (map Some rs) = Inr rs"
  by (induction rs) simp_all

lemma parse_lines_bad: "parse_lines (map Some rs @ None # ls) = Inl ValueError"
  by (induction rs) simp_all

text \<open>
  Claim C10. Whenever the file can be read and converted, \<open>load_data\<close> returns the first
  1000 rows of the converted table, numbered in file order, and nothing of the later
  ones: at most 1000 records, and \<open>main\<close> creates the nodes of these records only. The
  whole file is converted before the cut, so when the conversion raises, on whatever
  line, \<open>load_data\<close> and \<open>main\<close> raise the same exception and return nothing.
\<close>

theorem C10_load_data_first_1000:
  "(parse csv = Inr rows \<longrightarrow>
      load_data parse csv = Inr (map clean_row (enumerate 0 (take 1000 rows)))
      \<and> (\<exists>df. load_data parse csv = Inr df
             \<and> length df = min 1000 (length rows) \<and> length df \<le> 1000
             \<and> (\<forall>i < length df. df ! i = clean_row (i, rows ! i)))
      \<and> (\<exists>g. main_graph_construction parse db csv = Inr g
             \<and> nodes g = nodes db @ map clean_row (enumerate 0 (take 1000 rows))))
   \<and> (parse csv = Inl e \<longrightarrow>
        load_data parse csv = Inl e \<and> main_graph_construction parse db csv = Inl e)"
proof (intro conjI impI)
  assume ok: "parse csv = Inr rows"
  show ld: "load_data parse csv = Inr (map clean_row (enumerate 0 (take 1000 rows)))"
    by (simp add: load_data_def ok take_map enumerate_take)
  have nth: "\<forall>i < length (map clean_row (enumerate 0 (take 1000 rows))).
      map clean_row (enumerate 0 (take 1000 rows)) ! i = clean_row (i, rows ! i)"
    by (simp add: nth_enumerate_eq)
  show "\<exists>df. load_data parse csv = Inr df
             \<and> length df = min 1000 (length rows) \<and> length df \<le> 1000
             \<and> (\<forall>i < length df. df ! i = clean_row (i, rows ! i))"
    using nth by (simp add: ld min.commute)
  show "\<exists>g. main_graph_construction parse db csv = Inr g
             \<and> nodes g = nodes db @ map clean_row (enumerate 0 (take 1000 rows))"
    by (simp add: main_graph_construction_def ld build_edges_def
        create_similar_relationships_def create_next_relationships_def
        create_transaction_nodes_def)
next
  assume bad: "parse csv = Inl e"
  show "load_data parse csv = Inl e"
    by (simp add: load_data_def bad)
  then show "main_graph_construction parse db csv = Inl e"
    by (simp add: main_graph_construction_def)
qed

text \<open>
  A file of 1001 lines gives 1000 records; a file whose line 1001 cannot be converted
  gives none.
\<close>

theorem C10_load_data_first_1000_witness:
  "parse_lines (map Some (replicate 1001 (row ''Debit'' 100 0)))
     = Inr (replicate 1001 (row ''Debit'' 100 0))
   \<and> (\<exists>df. load_data parse_lines (map Some (replicate 1001 (row ''Debit'' 100 0))) = Inr df
          \<and> length df = 1000)
   \<and> parse_lines (map Some (replicate 1000 (row ''Debit'' 100 0)) @ [None]) = Inl ValueError
   \<and> load_data parse_lines (map Some (replicate 1000 (row ''Debit'' 100 0)) @ [None])
       = Inl ValueError"
proof -
  have ok: "parse_lines (map Some (replicate 1001 (row ''Debit'' 100 0)))
              = Inr (replicate 1001 (row ''Debit'' 100 0))"
    by (rule parse_lines_Some)
  have bad: "parse_lines (map Some (replicate 1000 (row ''Debit'' 100 0)) @ [None])
              = Inl ValueError"
    by (rule parse_lines_bad)
  from C10_load_data_first_1000
         [of parse_lines "map Some (replicate 1001 (row ''Debit'' 100 0))"
             "replicate 1001 (row ''Debit'' 100 0)" empty_graph ValueError]
       C10_load_data_first_1000
         [of parse_lines "map Some (replicate 1000 (row ''Debit'' 100 0)) @ [None]"
             "[]" empty_graph ValueError]
  show ?thesis
    using ok bad by auto
qed

section \<open>Risk scoring\<close>

lemma score_node_fields:
  "severity (score_node g a s th t) = Some (severity_case (Transaction_Amount (nodes g ! t)) a s)"
  "occurrence (score_node g a s th t) = Some (occurrence_case (sim_count g t))"
  "detection (score_node g a s th t) = Some 5"
  "RPN (score_node g a s th t) =
     Some (severity_case (Transaction_Amount (nodes g ! t)) a s * occurrence_case (sim_count g t) * 5)"
  "failure_mode (score_node g a s th t) =
     Some (failure_mode_case
        (severity_case (Transaction_Amount (nodes g ! t)) a s * occurrence_case (sim_count g t) * 5) th)"
  by (simp_all add: score_node_def Let_def property_def)



lemma graph_tiers_stats:
  "sum_list (map Transaction_Amount (nodes graph_tiers)) = 900"
  "length (nodes graph_tiers) = 9"
  "cypher_stDev (map Transaction_Amount (nodes graph_tiers)) = 10"
  by (simp_all add: graph_tiers_def tx_def cypher_stDev_def power2_eq_square)


subsection \<open>The sample databases, evaluated\<close>

lemmas pipeline_defs =
  main_graph_construction_def build_edges_def create_similar_relationships_def
  create_next_relationships_def create_transaction_nodes_def load_data_def clean_row_def
  empty_graph_def row_def next_created_def similar_created_def similar_matches_def
  similar_where_def order_by_timestamp_def match_transactions_def property_def
  cypher_range_def duration_inSeconds_def next_rel_def similar_rel_def enumerate_eq_zip
  str_nat.simps Let_def upt_rec upto.simps

lemma graph_pair_eval:
  "graph_pair =
     \<lparr>nodes = [tx ''0'' ''Debit'' 100 0, tx ''1'' ''Debit'' 100 600],
      rels = [\<lparr>rel_src = 0, rel_label = NEXT, rel_dst = 1, time_diff = Some 600\<rparr>,
              \<lparr>rel_src = 0, rel_label = SIMILAR, rel_dst = 1, time_diff = None\<rparr>,
              \<lparr>rel_src = 1, rel_label = SIMILAR, rel_dst = 0, time_diff = None\<rparr>]\<rparr>"
  by (simp add: graph_pair_def pipeline_defs tx_def)

lemma graph_crowd_len: "length (nodes graph_crowd) = 13"
  by code_simp

lemma graph_crowd_sim:
  "length (filter (\<lambda>r. rel_src r = 0 \<and> rel_label r = SIMILAR) (rels graph_crowd)) = 12"
  by code_simp

lemma graph_pair_stats:
  "length (nodes graph_pair) = 2"
  "cypher_avg (map Transaction_Amount (nodes graph_pair)) = Some 100"
  "cypher_stDev (map Transaction_Amount (nodes graph_pair)) = 0"
  "Transaction_Amount (nodes graph_pair ! 0) = 100"
  "sim_count graph_pair 0 = 1"
  by (simp_all add: graph_pair_eval tx_def cypher_avg_def cypher_stDev_def sim_count_def)

lemma graph_pair_rpn:
  "\<exists>g'. main_fmea graph_pair = Inr g' \<and> RPN (nodes g' ! 0) = Some 30"
  by (simp add: main_fmea_def run_fmea_Inr nodes_fmea_query score_node_fields graph_pair_stats
      severity_case_def occurrence_case_def)

subsection \<open>Occurrence\<close>

text \<open>
  Claim C4. For every node, the scoring run returns and sets occurrence to
  min (sim_count + 1, 10), where sim_count is the number of SIMILAR relationships that
  leave the node. Occurrence never exceeds 10, and a node with 12 outgoing SIMILAR
  relationships gets occurrence 10.
\<close>

theorem C4_occurrence_cap:
  assumes "t < length (nodes g)"
  shows "\<exists>g' occ. run_fmea g threshold = Inr g'
           \<and> occurrence (nodes g' ! t) = Some occ
           \<and> occ = min (int (length (filter (\<lambda>r. rel_src r = t \<and> rel_label r = SIMILAR) (rels g))) + 1) 10
           \<and> occ \<le> 10
           \<and> (length (filter (\<lambda>r. rel_src r = t \<and> rel_label r = SIMILAR) (rels g)) = 12
                \<longrightarrow> occ = 10)"
  using assms
  by (simp add: run_fmea_Inr nodes_fmea_query score_node_fields occurrence_case_min sim_count_def)

theorem C4_occurrence_cap_witness:
  "(0::nat) < length (nodes graph_crowd)
   \<and> length (filter (\<lambda>r. rel_src r = 0 \<and> rel_label r = SIMILAR) (rels graph_crowd)) = 12
   \<and> (\<exists>g'. run_fmea graph_crowd 30 = Inr g' \<and> occurrence (nodes g' ! 0) = Some 10)"
proof -
  have len: "(0::nat) < length (nodes graph_crowd)"
    by (simp add: graph_crowd_len)
  from C4_occurrence_cap [OF len, of 30] show ?thesis
    using len by (auto simp add: graph_crowd_sim)
qed

subsection \<open>Classification against the threshold\<close>

text \<open>
  Claim C5. For every node and every threshold, the scoring run returns and sets
  failure_mode to "High Risk" exactly when the node's RPN is at least the threshold, and
  to "Normal" otherwise. The boundary is inclusive: against threshold 30 an RPN of 30 is
  "High Risk" and an RPN of 29 is "Normal".
\<close>

theorem C5_failure_mode_threshold:
  assumes "t < length (nodes g)"
  shows "\<exists>g' rpn. run_fmea g threshold = Inr g'
           \<and> RPN (nodes g' ! t) = Some rpn
           \<and> failure_mode (nodes g' ! t) = Some (if rpn \<ge> threshold then ''High Risk'' else ''Normal'')
           \<and> (failure_mode (nodes g' ! t) = Some ''High Risk'' \<longleftrightarrow> rpn \<ge> threshold)
           \<and> failure_mode_case 30 30 = ''High Risk''
           \<and> failure_mode_case 29 30 = ''Normal''"
  using assms
  by (simp add: run_fmea_Inr nodes_fmea_query score_node_fields failure_mode_case_def)

text \<open>
  In \<open>graph_pair\<close> each node has one SIMILAR relationship and severity 3, hence RPN 30:
  with the default threshold 30 of \<open>main\<close> it is classified "High Risk".
\<close>

theorem C5_failure_mode_threshold_witness:
  "(0::nat) < length (nodes graph_pair)
   \<and> (\<exists>g'. main_fmea graph_pair = Inr g' \<and> RPN (nodes g' ! 0) = Some 30
          \<and> failure_mode (nodes g' ! 0) = Some ''High Risk'')"
proof -
  have len: "(0::nat) < length (nodes graph_pair)"
    by (simp add: graph_pair_stats)
  from C5_failure_mode_threshold [OF len, of 30] graph_pair_rpn show ?thesis
    using len by (auto simp add: main_fmea_def)
qed

subsection \<open>Ranges of the risk properties\<close>

text \<open>
  Claim C8. After a scoring run every node carries: a severity among 3, 7 and 10; an
  occurrence between 1 and 10; detection 5; an RPN equal to severity * occurrence *
  detection, between 15 and 500; and a failure_mode that is "High Risk" or "Normal".
  The run keeps the number of nodes.
\<close>

theorem C8_risk_field_ranges:
  assumes "t < length (nodes g)"
  shows "\<exists>g' sev occ rpn fm. run_fmea g threshold = Inr g'
           \<and> length (nodes g') = length (nodes g)
           \<and> severity (nodes g' ! t) = Some sev \<and> sev \<in> {3, 7, 10}
           \<and> occurrence (nodes g' ! t) = Some occ \<and> 1 \<le> occ \<and> occ \<le> 10
           \<and> detection (nodes g' ! t) = Some 5
           \<and> RPN (nodes g' ! t) = Some rpn \<and> rpn = sev * occ * 5 \<and> 15 \<le> rpn \<and> rpn \<le> 500
           \<and> failure_mode (nodes g' ! t) = Some fm \<and> fm \<in> {''High Risk'', ''Normal''}"
proof -
  define sev where "sev = severity_case (Transaction_Amount (nodes g ! t))
      (cypher_avg (map Transaction_Amount (nodes g))) (cypher_stDev (map Transaction_Amount (nodes g)))"
  define occ where "occ = occurrence_case (sim_count g t)"
  have sev: "sev \<in> {3, 7, 10}"
    unfolding sev_def by (rule severity_case_range)
  have occ: "1 \<le> occ \<and> occ \<le> 10"
    unfolding occ_def by (rule occurrence_case_bounds) (rule sim_count_nonneg)
  have lo: "15 \<le> sev * occ * 5"
  proof -
    have "3 \<le> sev" using sev by auto
    then have "3 * 1 \<le> sev * occ" using occ by (intro mult_mono) auto
    then show ?thesis by (simp add: mult.commute)
  qed
  have hi: "sev * occ * 5 \<le> 500"
  proof -
    have "0 \<le> sev" "sev \<le> 10" using sev by auto
    then have "sev * occ \<le> 10 * 10" using occ by (intro mult_mono) auto
    then show ?thesis by (simp add: mult.commute)
  qed
  have fm: "failure_mode_case (sev * occ * 5) threshold \<in> {''High Risk'', ''Normal''}"
    by (simp add: failure_mode_case_def)
  show ?thesis
    using assms sev occ lo hi fm
    by (simp add: run_fmea_Inr nodes_fmea_query length_fmea_query score_node_fields
        sev_def [symmetric] occ_def [symmetric] mult.commute)
qed

theorem C8_risk_field_ranges_witness:
  "(0::nat) < length (nodes graph_pair)
   \<and> (\<exists>g'. run_fmea graph_pair 30 = Inr g'
          \<and> severity (nodes g' ! 0) \<in> {Some 3, Some 7, Some 10}
          \<and> detection (nodes g' ! 0) = Some 5
          \<and> failure_mode (nodes g' ! 0) \<in> {Some ''High Risk'', Some ''Normal''})"
proof -
  have len: "(0::nat) < length (nodes graph_pair)"
    by (simp add: graph_pair_stats)
  from C8_risk_field_ranges [OF len, of 30] show ?thesis
    using len by auto
qed

subsection \<open>Scoring an empty database\<close>

text \<open>
  Claim C6 says that the scoring run fails with a "no data" condition on an empty node
  set. It does not: the statistics query returns its one row with a null average and a
  standard deviation of 0, and the run ends normally with the graph unchanged.
\<close>

theorem C6_empty_graph_counterexample:
  "stats_query empty_graph = [(None, 0)] \<and> run_fmea empty_graph 30 = Inr empty_graph"
  by (simp add: stats_query_def run_fmea_def single_def fmea_query_def match_transactions_def
      empty_graph_def cypher_avg_def cypher_stDev_def)

text \<open>
  Claim C6, amended. On a graph without nodes the statistics query yields a null
  average and standard deviation 0, no error is raised, and the scoring run returns the
  graph as it was.
\<close>

theorem C6_empty_graph_scored_silently:
  assumes "nodes g = []"
  shows "stats_query g = [(None, 0)] \<and> run_fmea g threshold = Inr g"
  using assms
  by (simp add: stats_query_def run_fmea_def single_def fmea_query_def match_transactions_def
      cypher_avg_def cypher_stDev_def)

theorem C6_empty_graph_scored_silently_witness:
  "nodes \<lparr>nodes = [], rels = []\<rparr> = []
   \<and> run_fmea \<lparr>nodes = [], rels = []\<rparr> 45 = Inr \<lparr>nodes = [], rels = []\<rparr>"
  using C6_empty_graph_scored_silently [of "\<lparr>nodes = [], rels = []\<rparr>" 45] by simp

section \<open>Summary report\<close>

lemma map_filter_all_Some:
  "\<forall>x\<in>set xs. f x \<noteq> None \<Longrightarrow> List.map_filter f xs = map (\<lambda>x. the (f x)) xs"
  by (induction xs) auto

lemma cypher_min_Min: "xs \<noteq> [] \<Longrightarrow> cypher_min xs = Some (Min (set xs))"
  by (cases xs) (simp_all add: cypher_min_def Min.set_eq_fold [symmetric] del: set_simps)

lemma cypher_max_Max: "xs \<noteq> [] \<Longrightarrow> cypher_max xs = Some (Max (set xs))"
  by (cases xs) (simp_all add: cypher_max_def Max.set_eq_fold [symmetric] del: set_simps)

lemma sum_list_lower:
  "\<forall>x\<in>set xs. m \<le> x \<Longrightarrow> real (length xs) * real_of_int m \<le> sum_list (map real_of_int xs)"
  by (induction xs) (auto simp: algebra_simps)

lemma sum_list_upper:
  "\<forall>x\<in>set xs. x \<le> m \<Longrightarrow> sum_list (map real_of_int xs) \<le> real (length xs) * real_of_int m"
  by (induction xs) (auto simp: algebra_simps)

lemma avg_between:
  assumes "xs \<noteq> []"
  shows "real_of_int (Min (set xs)) \<le> sum_list (map real_of_int xs) / real (length xs)"
    and "sum_list (map real_of_int xs) / real (length xs) \<le> real_of_int (Max (set xs))"
proof -
  from assms have pos: "0 < real (length xs)" by simp
  have "real (length xs) * real_of_int (Min (set xs)) \<le> sum_list (map real_of_int xs)"
    by (rule sum_list_lower) simp
  then show "real_of_int (Min (set xs)) \<le> sum_list (map real_of_int xs) / real (length xs)"
    using pos by (simp add: pos_le_divide_eq mult.commute)
  have "sum_list (map real_of_int xs) \<le> real (length xs) * real_of_int (Max (set xs))"
    by (rule sum_list_upper) simp
  then show "sum_list (map real_of_int xs) / real (length xs) \<le> real_of_int (Max (set xs))"
    using pos by (simp add: pos_divide_le_eq mult.commute)
qed

lemma count_by_sum:
  "sum_list (map (\<lambda>x. if P x then 1 else 0) xs) = int (length (filter P xs))"
  by (induction xs) simp_all

lemma highRisk_count:
  "sum_list (map (\<lambda>t. if property g failure_mode t = Some ''High Risk'' then 1 else 0)
               (match_transactions g))
   = int (length (filter (\<lambda>t. failure_mode t = Some ''High Risk'') (nodes g)))"
proof -
  have "map (\<lambda>t. if property g failure_mode t = Some ''High Risk'' then 1 else (0::int))
          (match_transactions g)
        = map (\<lambda>t. if failure_mode t = Some ''High Risk'' then 1 else 0) (nodes g)"
    unfolding match_transactions_def property_def
    by (rule nth_equalityI) simp_all
  then show ?thesis by (simp only: count_by_sum)
qed

lemma graph_tiers_scored_eval:
  "graph_tiers_scored = fmea_query graph_tiers (Some 100) 10 30"
proof -
  have "nodes graph_tiers \<noteq> []"
    using graph_tiers_stats(2) by auto
  then show ?thesis
    by (simp add: graph_tiers_scored_def main_fmea_def run_fmea_Inr cypher_avg_def
        graph_tiers_stats)
qed

lemma graph_tiers_scored_fields:
  "length (nodes graph_tiers_scored) = 9"
  "map RPN (nodes graph_tiers_scored)
     = [Some 35, Some 15, Some 15, Some 15, Some 15, Some 15, Some 15, Some 15, Some 15]"
  "map failure_mode (nodes graph_tiers_scored)
     = [Some ''High Risk'', Some ''Normal'', Some ''Normal'', Some ''Normal'', Some ''Normal'',
        Some ''Normal'', Some ''Normal'', Some ''Normal'', Some ''Normal'']"
  by (simp_all add: graph_tiers_scored_eval fmea_query_def match_transactions_def upt_rec
      score_node_fields sim_count_def severity_case_def occurrence_case_def
      failure_mode_case_def graph_tiers_def tx_def)

text \<open>
  Claim C9. For every graph that has at least one node and whose nodes all carry an RPN,
  the report query returns one row in which total is the number of nodes, highRisk is the
  number of nodes whose failure_mode is "High Risk", minRPN, avgRPN and maxRPN are the
  least value, the mean and the greatest value of the nodes' RPN, and
  minRPN \<le> avgRPN \<le> maxRPN.
\<close>

theorem C9_summary_consistent:
  assumes "nodes g \<noteq> []" and "\<forall>t\<in>set (nodes g). RPN t \<noteq> None"
  shows "\<exists>s mn av mx. get_summary_report g = Some s
           \<and> total s = int (length (nodes g))
           \<and> highRisk s = int (length (filter (\<lambda>t. failure_mode t = Some ''High Risk'') (nodes g)))
           \<and> minRPN s = Some mn \<and> avgRPN s = Some av \<and> maxRPN s = Some mx
           \<and> mn = Min (set (map (\<lambda>t. the (RPN t)) (nodes g)))
           \<and> mx = Max (set (map (\<lambda>t. the (RPN t)) (nodes g)))
           \<and> av = real_of_int (sum_list (map (\<lambda>t. the (RPN t)) (nodes g))) / real (length (nodes g))
           \<and> real_of_int mn \<le> av \<and> av \<le> real_of_int mx"
proof -
  define rs where "rs = map (\<lambda>t. the (RPN t)) (nodes g)"
  have vals: "rpn_values g = rs"
    unfolding rpn_values_def rs_def using assms(2) by (rule map_filter_all_Some)
  have ne: "rs \<noteq> []" and len: "length rs = length (nodes g)"
    using assms(1) by (simp_all add: rs_def)
  have sum: "sum_list (map real_of_int rs) = real_of_int (sum_list rs)"
    by (induction rs) simp_all
  have avg: "cypher_avg (map real_of_int rs) = Some (real_of_int (sum_list rs) / real (length (nodes g)))"
    using ne by (simp add: cypher_avg_def sum len)
  have lo: "real_of_int (Min (set rs)) \<le> real_of_int (sum_list rs) / real (length (nodes g))"
    using avg_between(1) [OF ne] by (simp add: sum len)
  have hi: "real_of_int (sum_list rs) / real (length (nodes g)) \<le> real_of_int (Max (set rs))"
    using avg_between(2) [OF ne] by (simp add: sum len)
  have cnt: "length (match_transactions g) = length (nodes g)"
    by (simp add: match_transactions_def)
  have rep: "get_summary_report g =
      Some \<lparr>total = int (length (nodes g)),
            highRisk = int (length (filter (\<lambda>t. failure_mode t = Some ''High Risk'') (nodes g))),
            avgRPN = Some (real_of_int (sum_list rs) / real (length (nodes g))),
            minRPN = Some (Min (set rs)), maxRPN = Some (Max (set rs))\<rparr>"
    by (simp add: get_summary_report_def single_def summary_query_def highRisk_count vals avg
        cypher_min_Min [OF ne] cypher_max_Max [OF ne] cnt)
  show ?thesis
    unfolding rep rs_def [symmetric] using lo hi by simp
qed

text \<open>
  The scored \<open>graph_tiers\<close> has one node of RPN 35 and eight of RPN 15: the report counts
  9 nodes, 1 of them high risk, with 15 \<le> 155 / 9 \<le> 35.
\<close>

theorem C9_summary_consistent_witness:
  "nodes graph_tiers_scored \<noteq> []
   \<and> None \<notin> set (map RPN (nodes graph_tiers_scored))
   \<and> (\<exists>s. get_summary_report graph_tiers_scored = Some s
          \<and> total s = 9 \<and> highRisk s = 1
          \<and> minRPN s = Some 15 \<and> avgRPN s = Some (155 / 9) \<and> maxRPN s = Some 35)"
proof -
  have ne: "nodes graph_tiers_scored \<noteq> []"
    using graph_tiers_scored_fields(1) by auto
  have some: "None \<notin> set (map RPN (nodes graph_tiers_scored))"
    by (simp add: graph_tiers_scored_fields(2))
  then have all: "\<forall>t\<in>set (nodes graph_tiers_scored). RPN t \<noteq> None"
    by (metis image_eqI set_map)
  have vals: "map (\<lambda>t. the (RPN t)) (nodes graph_tiers_scored) = [35, 15, 15, 15, 15, 15, 15, 15, 15]"
  proof -
    have "map (\<lambda>t. the (RPN t)) (nodes graph_tiers_scored)
            = map the (map RPN (nodes graph_tiers_scored))"
      by simp
    then show ?thesis by (simp only: graph_tiers_scored_fields(2)) simp
  qed
  have hr: "length (filter (\<lambda>t. failure_mode t = Some ''High Risk'') (nodes graph_tiers_scored)) = 1"
  proof -
    have "length (filter (\<lambda>t. failure_mode t = Some ''High Risk'') (nodes graph_tiers_scored))
            = length (filter (\<lambda>m. m = Some ''High Risk'') (map failure_mode (nodes graph_tiers_scored)))"
      by (simp add: filter_map comp_def)
    then show ?thesis by (simp only: graph_tiers_scored_fields(3)) simp
  qed
  from C9_summary_consistent [OF ne all] show ?thesis
    using ne some by (auto simp add: vals hr graph_tiers_scored_fields(1))
qed

section \<open>Graph construction\<close>

subsection \<open>SIMILAR relationships\<close>

lemma count_distinct:
  "distinct xs \<Longrightarrow> length (filter (\<lambda>x. x = y) xs) = (if y \<in> set xs then 1 else 0)"
  by (induction xs) auto

lemma filter_similar_rel:
  "filter (\<lambda>r. rel_src r = a \<and> rel_label r = l \<and> rel_dst r = b) (map similar_rel ps)
     = map similar_rel (filter (\<lambda>p. l = SIMILAR \<and> p = (a, b)) ps)"
  by (induction ps) (auto simp: similar_rel_def)

lemma distinct_similar_matches: "distinct (similar_matches g)"
  by (simp add: similar_matches_def match_transactions_def distinct_product)

lemma set_similar_matches:
  "(a, b) \<in> set (similar_matches g)
     \<longleftrightarrow> a < length (nodes g) \<and> b < length (nodes g) \<and> similar_where g a b"
  by (auto simp: similar_matches_def match_transactions_def)

lemma similar_created_count:
  "length (filter (\<lambda>r. rel_src r = a \<and> rel_label r = l \<and> rel_dst r = b) (similar_created g))
     = (if l = SIMILAR \<and> a < length (nodes g) \<and> b < length (nodes g) \<and> similar_where g a b
        then 1 else 0)"
proof (cases "l = SIMILAR")
  case True
  then show ?thesis
    using count_distinct [OF distinct_similar_matches, of "(a, b)" g]
    by (simp add: similar_created_def filter_similar_rel set_similar_matches)
next
  case False
  then show ?thesis
    by (simp add: similar_created_def filter_similar_rel)
qed

lemma edge_count_create_similar:
  "edge_count (create_similar_relationships g) a l b
     = edge_count g a l b
       + (if l = SIMILAR \<and> a < length (nodes g) \<and> b < length (nodes g) \<and> similar_where g a b
          then 1 else 0)"
  by (simp add: edge_count_def create_similar_relationships_def similar_created_count)

lemma graph_asym_eval:
  "graph_asym = \<lparr>nodes = [tx ''0'' ''Debit'' 100 0, tx ''1'' ''Debit'' 111 600], rels = []\<rparr>"
  by (simp add: graph_asym_def pipeline_defs tx_def)

text \<open>
  Claim C1. In a graph whose nodes have pairwise different identifiers, for every ordered
  pair of distinct nodes (a, b) the SIMILAR step adds exactly one relationship a -> b
  when the two types are equal, |amount a - amount b| < 0.1 * amount a and the
  timestamps are less than 3600 seconds apart, and adds none otherwise. The tolerance is
  taken from the source node: with equal types, timestamps inside the window and amounts
  100 and 111, no relationship is added from the node of amount 100 to the node of
  amount 111, and one is added in the other direction.
\<close>

theorem C1_similar_edge_iff:
  assumes "distinct (map Transaction_ID (nodes g))"
    and "a < length (nodes g)" and "b < length (nodes g)" and "a \<noteq> b"
  shows "edge_count (create_similar_relationships g) a SIMILAR b
           = edge_count g a SIMILAR b
             + (if Transaction_Type (nodes g ! a) = Transaction_Type (nodes g ! b)
                   \<and> \<bar>Transaction_Amount (nodes g ! a) - Transaction_Amount (nodes g ! b)\<bar>
                       < 0.1 * Transaction_Amount (nodes g ! a)
                   \<and> \<bar>timestamp (nodes g ! a) - timestamp (nodes g ! b)\<bar> < 3600
                then 1 else 0)
         \<and> (Transaction_Type (nodes g ! a) = Transaction_Type (nodes g ! b)
              \<and> \<bar>timestamp (nodes g ! a) - timestamp (nodes g ! b)\<bar> < 3600
              \<and> Transaction_Amount (nodes g ! a) = 100
              \<and> Transaction_Amount (nodes g ! b) = 111
            \<longrightarrow> edge_count (create_similar_relationships g) a SIMILAR b = edge_count g a SIMILAR b
                \<and> edge_count (create_similar_relationships g) b SIMILAR a
                     = edge_count g b SIMILAR a + 1)"
proof -
  have ids: "Transaction_ID (nodes g ! a) \<noteq> Transaction_ID (nodes g ! b)"
    using assms by (simp add: distinct_conv_nth)
  have w: "\<And>x y. x < length (nodes g) \<Longrightarrow> y < length (nodes g) \<Longrightarrow>
      similar_where g x y \<longleftrightarrow>
        Transaction_ID (nodes g ! x) \<noteq> Transaction_ID (nodes g ! y)
        \<and> Transaction_Type (nodes g ! x) = Transaction_Type (nodes g ! y)
        \<and> \<bar>Transaction_Amount (nodes g ! x) - Transaction_Amount (nodes g ! y)\<bar>
            < 0.1 * Transaction_Amount (nodes g ! x)
        \<and> \<bar>timestamp (nodes g ! x) - timestamp (nodes g ! y)\<bar> < 3600"
    by (simp add: similar_where_def property_def duration_inSeconds_def abs_minus_commute)
  have ab: "similar_where g a b \<longleftrightarrow>
        Transaction_Type (nodes g ! a) = Transaction_Type (nodes g ! b)
        \<and> \<bar>Transaction_Amount (nodes g ! a) - Transaction_Amount (nodes g ! b)\<bar>
            < 0.1 * Transaction_Amount (nodes g ! a)
        \<and> \<bar>timestamp (nodes g ! a) - timestamp (nodes g ! b)\<bar> < 3600"
    using w [OF assms(2) assms(3)] ids by simp
  have ba: "similar_where g b a \<longleftrightarrow>
        Transaction_Type (nodes g ! b) = Transaction_Type (nodes g ! a)
        \<and> \<bar>Transaction_Amount (nodes g ! b) - Transaction_Amount (nodes g ! a)\<bar>
            < 0.1 * Transaction_Amount (nodes g ! b)
        \<and> \<bar>timestamp (nodes g ! b) - timestamp (nodes g ! a)\<bar> < 3600"
    using w [OF assms(3) assms(2)] ids by auto
  have first: "edge_count (create_similar_relationships g) a SIMILAR b
           = edge_count g a SIMILAR b
             + (if Transaction_Type (nodes g ! a) = Transaction_Type (nodes g ! b)
                   \<and> \<bar>Transaction_Amount (nodes g ! a) - Transaction_Amount (nodes g ! b)\<bar>
                       < 0.1 * Transaction_Amount (nodes g ! a)
                   \<and> \<bar>timestamp (nodes g ! a) - timestamp (nodes g ! b)\<bar> < 3600
                then 1 else 0)"
    using assms(2,3) by (simp add: edge_count_create_similar ab)
  have second: "edge_count (create_similar_relationships g) b SIMILAR a
           = edge_count g b SIMILAR a
             + (if Transaction_Type (nodes g ! b) = Transaction_Type (nodes g ! a)
                   \<and> \<bar>Transaction_Amount (nodes g ! b) - Transaction_Amount (nodes g ! a)\<bar>
                       < 0.1 * Transaction_Amount (nodes g ! b)
                   \<and> \<bar>timestamp (nodes g ! b) - timestamp (nodes g ! a)\<bar> < 3600
                then 1 else 0)"
    using assms(2,3) by (simp add: edge_count_create_similar ba)
  show ?thesis
  proof (intro conjI impI)
    show "edge_count (create_similar_relationships g) a SIMILAR b
           = edge_count g a SIMILAR b
             + (if Transaction_Type (nodes g ! a) = Transaction_Type (nodes g ! b)
                   \<and> \<bar>Transaction_Amount (nodes g ! a) - Transaction_Amount (nodes g ! b)\<bar>
                       < 0.1 * Transaction_Amount (nodes g ! a)
                   \<and> \<bar>timestamp (nodes g ! a) - timestamp (nodes g ! b)\<bar> < 3600
                then 1 else 0)"
      by (rule first)
  next
    assume h: "Transaction_Type (nodes g ! a) = Transaction_Type (nodes g ! b)
              \<and> \<bar>timestamp (nodes g ! a) - timestamp (nodes g ! b)\<bar> < 3600
              \<and> Transaction_Amount (nodes g ! a) = 100
              \<and> Transaction_Amount (nodes g ! b) = 111"
    then show "edge_count (create_similar_relationships g) a SIMILAR b = edge_count g a SIMILAR b"
      by (simp add: first)
  next
    assume h: "Transaction_Type (nodes g ! a) = Transaction_Type (nodes g ! b)
              \<and> \<bar>timestamp (nodes g ! a) - timestamp (nodes g ! b)\<bar> < 3600
              \<and> Transaction_Amount (nodes g ! a) = 100
              \<and> Transaction_Amount (nodes g ! b) = 111"
    then show "edge_count (create_similar_relationships g) b SIMILAR a = edge_count g b SIMILAR a + 1"
      by (simp add: second abs_minus_commute)
  qed
qed

theorem C1_similar_edge_iff_witness:
  "distinct (map Transaction_ID (nodes graph_asym))
   \<and> (0::nat) < length (nodes graph_asym) \<and> (1::nat) < length (nodes graph_asym) \<and> (0::nat) \<noteq> 1
   \<and> edge_count (create_similar_relationships graph_asym) 0 SIMILAR 1 = 0
   \<and> edge_count (create_similar_relationships graph_asym) 1 SIMILAR 0 = 1"
proof -
  have d: "distinct (map Transaction_ID (nodes graph_asym))"
    by (simp add: graph_asym_eval tx_def)
  have l0: "(0::nat) < length (nodes graph_asym)" and l1: "(1::nat) < length (nodes graph_asym)"
    by (simp_all add: graph_asym_eval)
  have ne: "(0::nat) \<noteq> 1" by simp
  have e: "edge_count graph_asym 0 SIMILAR (Suc 0) = 0" "edge_count graph_asym (Suc 0) SIMILAR 0 = 0"
    by (simp_all add: edge_count_def graph_asym_eval)
  have f: "nodes graph_asym ! 0 = tx ''0'' ''Debit'' 100 0"
    "nodes graph_asym ! Suc 0 = tx ''1'' ''Debit'' 111 600"
    by (simp_all add: graph_asym_eval)
  from C1_similar_edge_iff [OF d l0 l1 ne] show ?thesis
    using d l0 l1 by (simp add: e f tx_def)
qed

subsection \<open>NEXT relationships\<close>

lemma upto_as_upt: "[0..int n - 1] = map int [0..<n]"
proof (induction n)
  case 0
  then show ?case by simp
next
  case (Suc n)
  have "[0..int (Suc n) - 1] = [0..int n - 1] @ [int n]"
    using upto_rec2 [of 0 "int n"] by simp
  then show ?case using Suc by simp
qed

lemma cypher_range_upt: "cypher_range 0 (int n - 2) = map int [0..<n - 1]"
proof (cases n)
  case 0
  then show ?thesis by (simp add: cypher_range_def)
next
  case (Suc m)
  then have "int n - 2 = int m - 1" by simp
  then show ?thesis using Suc by (simp add: cypher_range_def upto_as_upt)
qed

lemma length_order_by: "length (order_by_timestamp g) = length (nodes g)"
  by (simp add: order_by_timestamp_def match_transactions_def)

lemma distinct_order_by: "distinct (order_by_timestamp g)"
  by (simp add: order_by_timestamp_def match_transactions_def)

lemma set_order_by: "set (order_by_timestamp g) = {0..<length (nodes g)}"
  by (simp add: order_by_timestamp_def match_transactions_def)

lemma sorted_order_by:
  "sorted (map (\<lambda>t. timestamp (nodes g ! t)) (order_by_timestamp g))"
  using sorted_sort_key [of "property g timestamp" "match_transactions g"]
  by (simp add: order_by_timestamp_def property_def [abs_def])

lemma next_created_eq:
  "next_created g =
     map (\<lambda>k. next_rel g (order_by_timestamp g ! k) (order_by_timestamp g ! Suc k))
       [0..<length (nodes g) - 1]"
  by (simp add: next_created_def Let_def cypher_range_upt length_order_by comp_def nat_add_distrib)

lemma graph_shuffled_eval:
  "graph_shuffled =
     \<lparr>nodes = [tx ''0'' ''Debit'' 100 600, tx ''1'' ''Credit'' 50 0, tx ''2'' ''Debit'' 20 300],
      rels = []\<rparr>"
  by (simp add: graph_shuffled_def pipeline_defs tx_def)

lemma graph_shuffled_next:
  "next_created graph_shuffled =
     [\<lparr>rel_src = 1, rel_label = NEXT, rel_dst = 2, time_diff = Some 300\<rparr>,
      \<lparr>rel_src = 2, rel_label = NEXT, rel_dst = 0, time_diff = Some 300\<rparr>]"
  by (simp add: graph_shuffled_eval pipeline_defs tx_def)

text \<open>
  Claim C2 says that nodes with equal timestamps are chained in the order of their
  identifiers. The query orders by timestamp only: in \<open>graph_ties\<close> both nodes have the
  same timestamp and the one NEXT relationship leads from the node with identifier "1"
  to the node with identifier "0".
\<close>

theorem C2_ties_counterexample:
  "next_created graph_ties = [\<lparr>rel_src = 0, rel_label = NEXT, rel_dst = 1, time_diff = Some 0\<rparr>]
   \<and> timestamp (nodes graph_ties ! 0) = timestamp (nodes graph_ties ! 1)
   \<and> Transaction_ID (nodes graph_ties ! 0) = ''1''
   \<and> Transaction_ID (nodes graph_ties ! 1) = ''0''
   \<and> \<not> Transaction_ID (nodes graph_ties ! 0) \<le> Transaction_ID (nodes graph_ties ! 1)"
  by (simp add: graph_ties_def pipeline_defs tx_def)

text \<open>
  Claim C2, amended. For every graph with n \<ge> 1 nodes the NEXT step creates exactly
  n - 1 relationships. They form a single path txs(0) -> txs(1) -> ... -> txs(n - 1),
  where txs lists every node exactly once in ascending order of timestamp (the order
  among nodes of equal timestamp is not fixed by the identifier); each relationship
  carries as time_diff the difference in seconds between the timestamp of its target and
  that of its source, and every time_diff is at least 0.
\<close>

theorem C2_next_chain:
  assumes "nodes g \<noteq> []"
  shows "\<exists>txs. length txs = length (nodes g) \<and> distinct txs
           \<and> set txs = {0..<length (nodes g)}
           \<and> sorted (map (\<lambda>t. timestamp (nodes g ! t)) txs)
           \<and> length (next_created g) = length (nodes g) - 1
           \<and> next_created g
               = map (\<lambda>k. \<lparr>rel_src = txs ! k, rel_label = NEXT, rel_dst = txs ! Suc k,
                            time_diff = Some (timestamp (nodes g ! (txs ! Suc k))
                                              - timestamp (nodes g ! (txs ! k)))\<rparr>)
                   [0..<length (nodes g) - 1]
           \<and> (\<forall>k < length (nodes g) - 1.
                  0 \<le> timestamp (nodes g ! (txs ! Suc k)) - timestamp (nodes g ! (txs ! k)))
           \<and> rels (create_next_relationships g) = rels g @ next_created g"
proof -
  define txs where "txs = order_by_timestamp g"
  have len: "length txs = length (nodes g)"
    by (simp add: txs_def length_order_by)
  have srt: "sorted (map (\<lambda>t. timestamp (nodes g ! t)) txs)"
    unfolding txs_def by (rule sorted_order_by)
  have mono: "\<forall>k < length (nodes g) - 1.
      0 \<le> timestamp (nodes g ! (txs ! Suc k)) - timestamp (nodes g ! (txs ! k))"
  proof (intro allI impI)
    fix k assume k: "k < length (nodes g) - 1"
    then have "Suc k < length (map (\<lambda>t. timestamp (nodes g ! t)) txs)"
      by (simp add: len)
    with srt have "map (\<lambda>t. timestamp (nodes g ! t)) txs ! k
                     \<le> map (\<lambda>t. timestamp (nodes g ! t)) txs ! Suc k"
      by (intro sorted_nth_mono) simp_all
    with k show "0 \<le> timestamp (nodes g ! (txs ! Suc k)) - timestamp (nodes g ! (txs ! k))"
      by (simp add: len)
  qed
  have eq: "next_created g
               = map (\<lambda>k. \<lparr>rel_src = txs ! k, rel_label = NEXT, rel_dst = txs ! Suc k,
                            time_diff = Some (timestamp (nodes g ! (txs ! Suc k))
                                              - timestamp (nodes g ! (txs ! k)))\<rparr>)
                   [0..<length (nodes g) - 1]"
    by (simp add: next_created_eq txs_def next_rel_def property_def duration_inSeconds_def)
  have n: "length (next_created g) = length (nodes g) - 1"
    by (simp add: next_created_eq)
  have "length txs = length (nodes g) \<and> distinct txs
           \<and> set txs = {0..<length (nodes g)}
           \<and> sorted (map (\<lambda>t. timestamp (nodes g ! t)) txs)
           \<and> length (next_created g) = length (nodes g) - 1
           \<and> next_created g
               = map (\<lambda>k. \<lparr>rel_src = txs ! k, rel_label = NEXT, rel_dst = txs ! Suc k,
                            time_diff = Some (timestamp (nodes g ! (txs ! Suc k))
                                              - timestamp (nodes g ! (txs ! k)))\<rparr>)
                   [0..<length (nodes g) - 1]
           \<and> (\<forall>k < length (nodes g) - 1.
                  0 \<le> timestamp (nodes g ! (txs ! Suc k)) - timestamp (nodes g ! (txs ! k)))
           \<and> rels (create_next_relationships g) = rels g @ next_created g"
    using len srt mono eq n
    by (simp add: txs_def distinct_order_by set_order_by create_next_relationships_def)
  then show ?thesis by (rule exI)
qed

theorem C2_next_chain_witness:
  "nodes graph_shuffled \<noteq> []
   \<and> length (nodes graph_shuffled) = 3
   \<and> length (next_created graph_shuffled) = 2
   \<and> next_created graph_shuffled =
       [\<lparr>rel_src = 1, rel_label = NEXT, rel_dst = 2, time_diff = Some 300\<rparr>,
        \<lparr>rel_src = 2, rel_label = NEXT, rel_dst = 0, time_diff = Some 300\<rparr>]"
proof -
  have ne: "nodes graph_shuffled \<noteq> []" and len: "length (nodes graph_shuffled) = 3"
    by (simp_all add: graph_shuffled_eval)
  from C2_next_chain [OF ne] have "length (next_created graph_shuffled) = 2"
    by (auto simp add: len)
  then show ?thesis
    using ne len graph_shuffled_next by simp
qed

subsection \<open>Running the edge construction again\<close>

lemma nodes_build_edges: "nodes (build_edges g) = nodes g"
  by (simp add: build_edges_def create_similar_relationships_def create_next_relationships_def)

lemma next_created_nodes: "nodes g = nodes h \<Longrightarrow> next_created g = next_created h"
  by (simp add: next_created_def order_by_timestamp_def match_transactions_def
      property_def [abs_def] next_rel_def)

lemma similar_created_nodes: "nodes g = nodes h \<Longrightarrow> similar_created g = similar_created h"
  by (simp add: similar_created_def similar_matches_def similar_where_def match_transactions_def
      property_def [abs_def])

lemma rels_build_edges: "rels (build_edges g) = rels g @ next_created g @ similar_created g"
proof -
  have "nodes (create_next_relationships g) = nodes g"
    by (simp add: create_next_relationships_def)
  then have "similar_created (create_next_relationships g) = similar_created g"
    by (rule similar_created_nodes)
  then show ?thesis
    by (simp add: build_edges_def create_similar_relationships_def create_next_relationships_def)
qed

lemma count_at_most_one:
  "distinct (map f xs) \<Longrightarrow> length (filter (\<lambda>x. f x = a \<and> Q x) xs) \<le> 1"
proof (induction xs)
  case Nil
  then show ?case by simp
next
  case (Cons x xs)
  show ?case
  proof (cases "f x = a")
    case True
    with Cons.prems have "\<forall>y\<in>set xs. f y \<noteq> a" by (force simp: image_iff)
    then have "filter (\<lambda>x. f x = a \<and> Q x) xs = []" by (simp add: filter_empty_conv)
    then show ?thesis by simp
  next
    case False
    with Cons show ?thesis by simp
  qed
qed

lemma next_created_count:
  "length (filter (\<lambda>r. rel_src r = a \<and> rel_label r = l \<and> rel_dst r = b) (next_created g))
     \<le> (if l = NEXT then 1 else 0)"
proof -
  let ?txs = "order_by_timestamp g"
  let ?ks = "[0..<length (nodes g) - 1]"
  have inj: "inj_on (nth ?txs) (set ?ks)"
    by (rule inj_on_nth) (auto simp add: distinct_order_by length_order_by)
  then have d: "distinct (map (nth ?txs) ?ks)"
    by (simp add: distinct_map)
  have "filter (\<lambda>r. rel_src r = a \<and> rel_label r = l \<and> rel_dst r = b) (next_created g)
          = map (\<lambda>k. next_rel g (?txs ! k) (?txs ! Suc k))
              (filter (\<lambda>k. ?txs ! k = a \<and> (NEXT = l \<and> ?txs ! Suc k = b)) ?ks)"
    by (simp add: next_created_eq filter_map comp_def next_rel_def)
  then have "length (filter (\<lambda>r. rel_src r = a \<and> rel_label r = l \<and> rel_dst r = b) (next_created g))
          = length (filter (\<lambda>k. ?txs ! k = a \<and> (NEXT = l \<and> ?txs ! Suc k = b)) ?ks)"
    by simp
  also have "\<dots> \<le> (if l = NEXT then 1 else 0)"
    using count_at_most_one [OF d, of a "\<lambda>k. NEXT = l \<and> ?txs ! Suc k = b"]
    by (cases "l = NEXT") auto
  finally show ?thesis .
qed

lemma graph_asym_built:
  "rels (build_edges graph_asym) =
     [\<lparr>rel_src = 0, rel_label = NEXT, rel_dst = 1, time_diff = Some 600\<rparr>,
      \<lparr>rel_src = 1, rel_label = SIMILAR, rel_dst = 0, time_diff = None\<rparr>]"
  by (simp add: graph_asym_eval pipeline_defs tx_def)

text \<open>
  Claim C7 says that a second run of the edge construction leaves the edge set as it
  was. Both queries use CREATE: run on \<open>graph_pair\<close>, which already holds its edges, the
  steps add every edge once more, so that two NEXT and two SIMILAR relationships lead
  from node 0 to node 1 and the graph holds six relationships instead of three.
\<close>

theorem C7_repeated_run_counterexample:
  "edge_count graph_pair 0 NEXT 1 = 1
   \<and> edge_count (build_edges graph_pair) 0 NEXT 1 = 2
   \<and> edge_count graph_pair 0 SIMILAR 1 = 1
   \<and> edge_count (build_edges graph_pair) 0 SIMILAR 1 = 2
   \<and> length (rels graph_pair) = 3
   \<and> length (rels (build_edges graph_pair)) = 6"
  by (simp add: graph_pair_eval edge_count_def pipeline_defs tx_def)

text \<open>
  Claim C7, amended. One run of the edge construction on a graph without relationships
  creates, for every ordered pair of nodes and every edge type, at most one edge of that
  type; every further run appends the same edges again, so that after two runs each edge
  exists twice.
\<close>

theorem C7_single_run_no_duplicates:
  assumes "rels g = []"
  shows "edge_count (build_edges g) a l b \<le> 1
         \<and> rels (build_edges (build_edges g)) = rels (build_edges g) @ rels (build_edges g)
         \<and> edge_count (build_edges (build_edges g)) a l b = 2 * edge_count (build_edges g) a l b"
proof -
  have one: "rels (build_edges g) = next_created g @ similar_created g"
    using assms by (simp add: rels_build_edges)
  have "next_created (build_edges g) = next_created g"
    and "similar_created (build_edges g) = similar_created g"
    by (rule next_created_nodes, rule nodes_build_edges)
       (rule similar_created_nodes, rule nodes_build_edges)
  then have two: "rels (build_edges (build_edges g)) = rels (build_edges g) @ rels (build_edges g)"
    by (simp add: rels_build_edges [of "build_edges g"] one)
  have le: "edge_count (build_edges g) a l b \<le> 1"
    using next_created_count [of a l b g] similar_created_count [of a l b g]
    by (cases l) (simp_all add: edge_count_def one)
  have dbl: "edge_count (build_edges (build_edges g)) a l b = 2 * edge_count (build_edges g) a l b"
    by (simp add: edge_count_def two)
  from le two dbl show ?thesis by simp
qed

theorem C7_single_run_no_duplicates_witness:
  "rels graph_asym = []
   \<and> edge_count (build_edges graph_asym) 0 NEXT 1 = 1
   \<and> edge_count (build_edges (build_edges graph_asym)) 0 NEXT 1 = 2"
proof -
  have e: "rels graph_asym = []"
    by (simp add: graph_asym_eval)
  have c: "edge_count (build_edges graph_asym) 0 NEXT 1 = 1"
    by (simp add: edge_count_def graph_asym_built)
  from C7_single_run_no_duplicates [OF e, of 0 NEXT 1] show ?thesis
    using e c by simp
qed

end
